theory Spec2Isabelle
  imports Main "HOL-Library.Word"
begin

unbundle bit_operations_syntax

section \<open>The DS1306 driver (src/ds1306.py)\<close>

text \<open>
  Python integers are unbounded and are modelled as \<^typ>\<open>int\<close>; the operators
  \<open>&\<close>, \<open>|\<close> and \<open>>>\<close> of Python are \<open>AND\<close>, \<open>OR\<close> and \<open>drop_bit\<close> on
  \<^typ>\<open>int\<close>, which agree with Python on negative operands as well (two's complement,
  shifting rounds down). The elements of a \<open>bytearray\<close> are \<^typ>\<open>8 word\<close>.
\<close>

type_synonym u8 = "8 word"

subsection \<open>Exceptions\<close>

text \<open>
  The exceptions the modelled code can raise: \<open>OSError\<close> from a bus transfer
  (the transport fault), \<open>ValueError\<close> from \<open>bytearray\<close> on an element outside
  \<open>range(256)\<close>, \<open>IndexError\<close> from indexing a tuple or buffer out of range, and
  \<open>TypeError\<close> from an integer operator applied to a buffer.
\<close>

datatype error = TransportFault | ValueError | IndexError | TypeError

subsection \<open>BCD codec\<close>

text \<open>
  \<open>int(a / b)\<close>: Python 3 divides as floating point and \<open>int\<close> truncates the
  quotient towards zero. For the magnitudes a clock register or a calendar year has,
  the rounding of the floating-point quotient never reaches the next integer, so the
  result is the exact quotient truncated towards zero. The divisor is a positive
  literal at every call (10, 4, 100, 400).
\<close>

definition int_div :: "int \<Rightarrow> int \<Rightarrow> int" where
  "int_div a b = (if a < 0 then - ((- a) div b) else a div b)"

text \<open>\<open>def bcdtodec(self,byte): return (((byte>>4)&0x07)*10)+(byte&0x0f)\<close>\<close>

definition bcdtodec :: "int \<Rightarrow> int" where
  "bcdtodec byte = ((drop_bit 4 byte) AND 0x07) * 10 + (byte AND 0x0f)"

text \<open>
  \<^verbatim>\<open>
  def dectobcd(self,num):
      num = int(num)
      un = int(num/10)
      ln = num - (un*10)
      return ((int(un))*16)+(int(ln))
  \<close>
\<close>

definition dectobcd :: "int \<Rightarrow> int" where
  "dectobcd num = (let un = int_div num 10; ln = num - un * 10 in un * 16 + ln)"

text \<open>
  Python indexing \<open>xs[i]\<close>: a negative index counts from the end, an index outside
  \<open>-len(xs) .. len(xs)-1\<close> raises \<open>IndexError\<close>.
\<close>

definition getitem :: "'a list \<Rightarrow> int \<Rightarrow> error + 'a" where
  "getitem xs i =
     (if 0 \<le> i \<and> i < int (length xs) then Inr (xs ! nat i)
      else if i < 0 \<and> - int (length xs) \<le> i then Inr (xs ! nat (int (length xs) + i))
      else Inl IndexError)"

text \<open>
  \<open>bytearray([x, ...])\<close>: every element must be in \<open>range(256)\<close>, otherwise
  \<open>ValueError\<close> is raised.
\<close>

definition bytearray :: "int list \<Rightarrow> error + u8 list" where
  "bytearray xs =
     (if list_all (\<lambda>x. 0 \<le> x \<and> x < 256) xs then Inr (map word_of_int xs)
      else Inl ValueError)"

text \<open>
  \<open>bin(n)\<close>: the binary literal of an integer as a string, \<open>'0b110000'\<close> for 48 and
  \<open>'-0b101'\<close> for -5.
\<close>

fun bin_digits :: "nat \<Rightarrow> string" where
  "bin_digits n =
     (if n < 2 then (if n = 0 then ''0'' else ''1'')
      else bin_digits (n div 2) @ (if n mod 2 = 0 then ''0'' else ''1''))"

declare bin_digits.simps [simp del]

definition bin :: "int \<Rightarrow> string" where
  "bin n = (if n < 0 then ''-0b'' @ bin_digits (nat (- n)) else ''0b'' @ bin_digits (nat n))"

subsection \<open>The bus, the chip-select pin and the device\<close>

text \<open>
  Modelled from the spec: the SPI bus object (\<open>busio.SPI\<close> or \<open>bitbangio.SPI\<close>), the
  chip-select pin (\<open>digitalio.DigitalInOut\<close>) and the DS1306 chip behind them are
  not part of the repository. They are modelled as the mock bus collaborator of the
  specification, which records all bytes written:
  \<^item> \<open>regs\<close> is the register file of the device, addresses \<open>0x00\<close> to \<open>0x11\<close> of the
    register address space (\<open>0x0f\<close> control, \<open>0x10\<close> status, \<open>0x11\<close> trickle charger);
  \<^item> \<open>cs\<close> is the value of the chip-select pin, \<open>locked\<close> says that the bus is
    exclusively owned;
  \<^item> \<open>written\<close> is the log of the frames passed to \<open>write\<close>, oldest first;
  \<^item> \<open>transfers\<close> counts the transfers attempted so far and \<open>faulty n\<close> says that
    transfer number \<open>n\<close> raises a transport fault, so that any schedule of faults can
    be injected.
\<close>

record bus =
  regs :: "nat \<Rightarrow> u8"
  cs :: bool
  locked :: bool
  written :: "u8 list list"
  transfers :: nat
  faulty :: "nat \<Rightarrow> bool"

text \<open>
  Modelled from the spec: a write frame is the address byte with the write flag
  (\<open>0x80\<close>) set, followed by the data bytes; the address auto-increments across the
  data bytes. A frame whose first byte has the write flag clear changes no register.
\<close>

fun store :: "(nat \<Rightarrow> u8) \<Rightarrow> nat \<Rightarrow> u8 list \<Rightarrow> (nat \<Rightarrow> u8)" where
  "store r a [] = r"
| "store r a (d # ds) = store (r(a := d)) (Suc a) ds"

fun dev_write :: "(nat \<Rightarrow> u8) \<Rightarrow> u8 list \<Rightarrow> (nat \<Rightarrow> u8)" where
  "dev_write r [] = r"
| "dev_write r (c # ds) = (if bit c 7 then store r (unat (c AND 0x7f)) ds else r)"

text \<open>
  Modelled from the spec: a burst read of \<open>n\<close> bytes begins at address 0; index 0 of
  the result is an alignment byte, indices 1 to 18 are the registers \<open>0x00\<close> to \<open>0x11\<close>
  in order.
\<close>

definition burst :: "(nat \<Rightarrow> u8) \<Rightarrow> nat \<Rightarrow> u8 list" where
  "burst r n = map (\<lambda>i. if i = 0 then 0 else r (i - 1)) [0..<n]"

subsection \<open>Outcomes of a method call\<close>

text \<open>
  A method call on a bus state either returns a value, or raises an exception, both
  with the bus state it leaves behind, or never returns. The driver has no
  \<open>try\<close> statement around a bus transaction, so an exception ends every enclosing
  method at once: \<open>bind_io\<close> passes it on together with the state reached.
\<close>

datatype 'a outcome = Returns 'a bus | Raises error bus | Hangs

type_synonym 'a io = "bus \<Rightarrow> 'a outcome"

definition returns :: "'a \<Rightarrow> 'a io" where
  "returns x b = Returns x b"

definition raise :: "error \<Rightarrow> 'a io" where
  "raise e b = Raises e b"

definition bind_io :: "'a io \<Rightarrow> ('a \<Rightarrow> 'b io) \<Rightarrow> 'b io" where
  "bind_io m f b =
     (case m b of Returns x b' \<Rightarrow> f x b' | Raises e b' \<Rightarrow> Raises e b' | Hangs \<Rightarrow> Hangs)"

definition from_sum :: "error + 'a \<Rightarrow> 'a io" where
  "from_sum r = (case r of Inl e \<Rightarrow> raise e | Inr x \<Rightarrow> returns x)"

subsection \<open>Bus operations\<close>

text \<open>
  \<open>try_lock()\<close> takes the bus if nobody owns it and says whether it did.
  \<open>unlock()\<close> releases it. \<open>configure(...)\<close> sets the clock parameters, which no
  register depends on.
\<close>

definition try_lock :: "bus \<Rightarrow> bool \<times> bus" where
  "try_lock b = (if locked b then (False, b) else (True, b\<lparr>locked := True\<rparr>))"

definition spi_unlock :: "bus \<Rightarrow> bus" where
  "spi_unlock b = b\<lparr>locked := False\<rparr>"

definition spi_configure :: "bus \<Rightarrow> bus" where
  "spi_configure b = b"

text \<open>
  \<open>write(buf)\<close> and \<open>readinto(buf)\<close>: transfer number \<open>transfers b\<close>. A faulty
  transfer raises and moves no data.
\<close>

definition spi_write :: "u8 list \<Rightarrow> unit io" where
  "spi_write buf b =
     (if faulty b (transfers b)
      then Raises TransportFault (b\<lparr>transfers := Suc (transfers b)\<rparr>)
      else Returns () (b\<lparr>regs := dev_write (regs b) buf,
                         written := written b @ [buf],
                         transfers := Suc (transfers b)\<rparr>))"

definition spi_readinto :: "nat \<Rightarrow> u8 list io" where
  "spi_readinto n b =
     (if faulty b (transfers b)
      then Raises TransportFault (b\<lparr>transfers := Suc (transfers b)\<rparr>)
      else Returns (burst (regs b) n) (b\<lparr>transfers := Suc (transfers b)\<rparr>))"

subsection \<open>Transaction framer\<close>

text \<open>
  \<^verbatim>\<open>
  def __lock(self):
      while not self.__spi.try_lock():
          pass
  \<close>
  The loop spins until the bus is free. Nothing else runs meanwhile, so on a bus that
  is already owned it never ends: \<open>lock b = None\<close>.
\<close>

partial_function (option) lock :: "bus \<Rightarrow> bus option" where
  "lock b = (if fst (try_lock b) then Some (snd (try_lock b)) else lock (snd (try_lock b)))"

declare lock.simps [code]

definition lock_io :: "unit io" where
  "lock_io b = (case lock b of None \<Rightarrow> Hangs | Some b' \<Rightarrow> Returns () b')"

definition unlock :: "unit io" where
  "unlock b = Returns () (spi_unlock b)"

definition configure :: "unit io" where
  "configure b = Returns () (spi_configure b)"

definition set_cs :: "bool \<Rightarrow> unit io" where
  "set_cs v b = Returns () (b\<lparr>cs := v\<rparr>)"

text \<open>
  \<^verbatim>\<open>
  def __prepare(self):
      self.__lock()
      self.__configure()
      self.__cs.value=True

  def __finish(self):
      self.__cs.value=False
      self.__unlock()
  \<close>
\<close>

definition prepare :: "unit io" where
  "prepare = bind_io lock_io (\<lambda>_. bind_io configure (\<lambda>_. set_cs True))"

definition finish :: "unit io" where
  "finish = bind_io (set_cs False) (\<lambda>_. unlock)"

text \<open>
  \<^verbatim>\<open>
  def __read(self,loc=-1):
      self.__prepare()
      result = bytearray(19)
      self.__spi.readinto(result)
      self.__finish()
      if loc==-1:
          return result
      else:
          return result[loc+1]
  \<close>
  With \<open>loc = -1\<close> the whole buffer is returned (\<open>read_all\<close>). Every method of the
  driver passes an address and applies an integer operator to what it gets back, so
  for a caller that passes \<open>-1\<close> the buffer ends in a \<open>TypeError\<close> at that operator,
  after the transaction: this is the \<open>loc = -1\<close> branch of \<open>read\<close>.
\<close>

definition read_all :: "u8 list io" where
  "read_all =
     bind_io prepare (\<lambda>_.
     bind_io (spi_readinto 19) (\<lambda>result.
     bind_io finish (\<lambda>_. returns result)))"

definition read :: "int \<Rightarrow> int io" where
  "read loc =
     bind_io prepare (\<lambda>_.
     bind_io (spi_readinto 19) (\<lambda>result.
     bind_io finish (\<lambda>_.
       if loc = -1 then raise TypeError
       else from_sum (map_sum id uint (getitem result (loc + 1))))))"

text \<open>
  \<^verbatim>\<open>
  def __writeOn(self):
      prior=self.__read(0x0f)
      self.__prepare()
      self.__spi.write(bytearray([0x8f,prior&0x04]))
      self.__finish()

  def __writeOff(self):
      prior=self.__read(0x0f)
      self.__prepare()
      self.__spi.write(bytearray([0x8f,prior|0x40]))
      self.__finish()
  \<close>
\<close>

definition writeOn :: "unit io" where
  "writeOn =
     bind_io (read 0x0f) (\<lambda>prior.
     bind_io prepare (\<lambda>_.
     bind_io (from_sum (bytearray [0x8f, prior AND 0x04])) (\<lambda>buf.
     bind_io (spi_write buf) (\<lambda>_. finish))))"

definition writeOff :: "unit io" where
  "writeOff =
     bind_io (read 0x0f) (\<lambda>prior.
     bind_io prepare (\<lambda>_.
     bind_io (from_sum (bytearray [0x8f, prior OR 0x40])) (\<lambda>buf.
     bind_io (spi_write buf) (\<lambda>_. finish))))"

text \<open>
  \<^verbatim>\<open>
  def __write(self,loc,val):
      self.__writeOn()
      self.__prepare()
      self.__spi.write(bytearray([loc,val]))
      self.__finish()
      self.__writeOff()

  def __writeBuf(self,buf):
      self.__writeOn()
      self.__prepare()
      self.__spi.write(buf)
      self.__finish()
      self.__writeOff()
  \<close>
  \<open>__write\<close> is \<open>write_reg\<close> here.
\<close>

definition write_reg :: "int \<Rightarrow> int \<Rightarrow> unit io" where
  "write_reg loc val =
     bind_io writeOn (\<lambda>_.
     bind_io prepare (\<lambda>_.
     bind_io (from_sum (bytearray [loc, val])) (\<lambda>buf.
     bind_io (spi_write buf) (\<lambda>_.
     bind_io finish (\<lambda>_. writeOff)))))"

definition writeBuf :: "u8 list \<Rightarrow> unit io" where
  "writeBuf buf =
     bind_io writeOn (\<lambda>_.
     bind_io prepare (\<lambda>_.
     bind_io (spi_write buf) (\<lambda>_.
     bind_io finish (\<lambda>_. writeOff))))"

subsection \<open>Time\<close>

text \<open>
  \<^verbatim>\<open>
  def setTime(self,h,m,s,th=0,ap=0):
      if th:
          h = h if h<=12 else h-12
          ap = ap%2
          h=self.dectobcd(h)|0x40|0x20*ap
      else:
          h=self.dectobcd(h)
      self.__writeBuf(bytearray([0x80,self.dectobcd(s),self.dectobcd(m),h]))
  \<close>
  \<open>setTime_hour\<close> is the hour byte that the \<open>if\<close> statement computes.
\<close>

definition setTime_hour :: "int \<Rightarrow> int \<Rightarrow> int \<Rightarrow> int" where
  "setTime_hour h th ap =
     (if th \<noteq> 0 then
        (let h = (if h \<le> 12 then h else h - 12);
             ap = ap mod 2
         in (dectobcd h OR 0x40) OR 0x20 * ap)
      else dectobcd h)"

definition setTime :: "int \<Rightarrow> int \<Rightarrow> int \<Rightarrow> int \<Rightarrow> int \<Rightarrow> unit io" where
  "setTime h m s th ap =
     bind_io (from_sum (bytearray [0x80, dectobcd s, dectobcd m, setTime_hour h th ap]))
       writeBuf"

text \<open>
  \<^verbatim>\<open>
  def getTime(self):
      h = self.__read(0x02)
      if not h>>6&1:
          h=self.bcdtodec(h),0,0
      else:
          h=self.bcdtodec(h&-0x21&-0x41),1,h>>5&1
      m=self.bcdtodec(self.__read(0x01))
      s=self.bcdtodec(self.__read(0x00))
      return h[0],m,s,h[1],h[2]
  \<close>
  \<open>getTime_hour\<close> is the triple that the \<open>if\<close> statement computes from the hour
  byte: hour, 12-hour flag, PM flag.
\<close>

definition getTime_hour :: "int \<Rightarrow> int \<times> int \<times> int" where
  "getTime_hour h =
     (if (drop_bit 6 h) AND 1 = 0 then (bcdtodec h, 0, 0)
      else (bcdtodec ((h AND - 0x21) AND - 0x41), 1, (drop_bit 5 h) AND 1))"

definition getTime :: "(int \<times> int \<times> int \<times> int \<times> int) io" where
  "getTime =
     bind_io (read 0x02) (\<lambda>h.
     bind_io (read 0x01) (\<lambda>m_raw.
     bind_io (read 0x00) (\<lambda>s_raw.
       returns (fst (getTime_hour h), bcdtodec m_raw, bcdtodec s_raw,
                fst (snd (getTime_hour h)), snd (snd (getTime_hour h))))))"

subsection \<open>Date\<close>

text \<open>
  \<^verbatim>\<open>
  def getDayFromDate(self,y,m,d): #Sun 1, Sat 7
      t=(0,3,2,5,0,3,5,1,4,6,2,4)
      y-=m<3
      return ((y+int(y/4)-int(y/100)+int(y/400)+t[m-1]+d)%7)+1
  \<close>
  The comparison \<open>m<3\<close> counts as 1 when it holds and as 0 otherwise. The sum is
  evaluated from the left, so the tuple is indexed, and may raise, before the result
  exists.
\<close>

definition month_table :: "int list" where
  "month_table = [0, 3, 2, 5, 0, 3, 5, 1, 4, 6, 2, 4]"

definition getDayFromDate :: "int \<Rightarrow> int \<Rightarrow> int \<Rightarrow> error + int" where
  "getDayFromDate y m d =
     (let t = month_table;
          y = y - (if m < 3 then 1 else 0)
      in case getitem t (m - 1) of
           Inl e \<Rightarrow> Inl e
         | Inr off \<Rightarrow>
             Inr ((y + int_div y 4 - int_div y 100 + int_div y 400 + off + d) mod 7 + 1))"

subsection \<open>Alarms\<close>

text \<open>
  \<^verbatim>\<open>
  def setAlarmTime(self,a,h,m,s,w,fh,fm,fs,fw,th=0,ap=0):
      add=0x87 if not a else 0x8B
      if th:
          h = h if h<=12 else h-12
          ap = ap%2
          h=self.dectobcd(h)|0x40|0x20*ap|0x80*fh
      else:
          h=self.dectobcd(h)|0x80*fh
      s=self.dectobcd(s)|0x80*fs
      m=self.dectobcd(m)|0x80*fm
      w=self.dectobcd(w)|0x80*fw
      self.__writeBuf(bytearray([add,s,m,h,w]))
  \<close>
  The match flags \<open>fh\<close>, \<open>fm\<close>, \<open>fs\<close>, \<open>fw\<close> are multiplied, so they are integers
  (\<open>True\<close> is 1 and \<open>False\<close> is 0).
\<close>

definition setAlarmTime_hour :: "int \<Rightarrow> int \<Rightarrow> int \<Rightarrow> int \<Rightarrow> int" where
  "setAlarmTime_hour h fh th ap =
     (if th \<noteq> 0 then
        (let h = (if h \<le> 12 then h else h - 12);
             ap = ap mod 2
         in ((dectobcd h OR 0x40) OR 0x20 * ap) OR 0x80 * fh)
      else dectobcd h OR 0x80 * fh)"

definition setAlarmTime ::
  "int \<Rightarrow> int \<Rightarrow> int \<Rightarrow> int \<Rightarrow> int \<Rightarrow> int \<Rightarrow> int \<Rightarrow> int \<Rightarrow> int \<Rightarrow> int \<Rightarrow> int \<Rightarrow> unit io" where
  "setAlarmTime a h m s w fh fm fs fw th ap =
     (let add = (if a = 0 then 0x87 else 0x8B);
          h = setAlarmTime_hour h fh th ap;
          s = dectobcd s OR 0x80 * fs;
          m = dectobcd m OR 0x80 * fm;
          w = dectobcd w OR 0x80 * fw
      in bind_io (from_sum (bytearray [add, s, m, h, w])) writeBuf)"

text \<open>
  \<^verbatim>\<open>
  def getAlarmTime(self,a):
      h=self.__read(0x09+(4*a))
      m=self.__read(0x08+(4*a))
      s=self.__read(0x07+(4*a))
      w=self.__read(0x0a+(4*a))
      return bin(h&-0x81&-0x41),bin(m&-0x81),bin(s&-0x81),bin(w&-0x81),h>>7&1,m>>7&1,s>>7&1,w>>7&1
  \<close>
\<close>

definition getAlarmTime ::
  "int \<Rightarrow> (string \<times> string \<times> string \<times> string \<times> int \<times> int \<times> int \<times> int) io" where
  "getAlarmTime a =
     bind_io (read (0x09 + 4 * a)) (\<lambda>h.
     bind_io (read (0x08 + 4 * a)) (\<lambda>m.
     bind_io (read (0x07 + 4 * a)) (\<lambda>s.
     bind_io (read (0x0a + 4 * a)) (\<lambda>w.
       returns (bin ((h AND - 0x81) AND - 0x41), bin (m AND - 0x81), bin (s AND - 0x81),
                bin (w AND - 0x81),
                (drop_bit 7 h) AND 1, (drop_bit 7 m) AND 1, (drop_bit 7 s) AND 1,
                (drop_bit 7 w) AND 1)))))"

subsection \<open>Trickle charger\<close>

text \<open>
  \<^verbatim>\<open>
  def setChargerState(self,d,r):
      if not d:
          d=self.__read(0x11)&-0x09|0x04
      else:
          d=self.__read(0x11)&-0x05|0x08
      self.__write(0x91,d)
      if not r:
          r=self.__read(0x11)&-0x03|0x01
      elif r==1:
          r=self.__read(0x11)&-0x02|0x02
      else:
          r=self.__read(0x11)|0x01|0x02
      self.__write(0x91,r)
  \<close>
  The diode argument \<open>d\<close> is only tested for truth (0 is false) and the resistor
  argument \<open>r\<close> is only compared with 0 and 1; each of the five branches composes a
  byte from the charger register. In the register layout bits 2 and 3 select the diode
  and bits 0 and 1 the resistor: \<open>d = 0\<close> writes diode bits 01 and any other \<open>d\<close> bits
  10; \<open>r = 0\<close> writes resistor bits 01, \<open>r = 1\<close> bits 10 and any other \<open>r\<close> bits 11.
  No argument value is kept apart as a selection to refuse, and there is no other
  statement in the method: nothing is compared with anything else and nothing is
  raised by the method itself.
\<close>

definition setChargerState :: "int \<Rightarrow> int \<Rightarrow> unit io" where
  "setChargerState d r =
     bind_io (if d = 0 then bind_io (read 0x11) (\<lambda>x. returns ((x AND - 0x09) OR 0x04))
              else bind_io (read 0x11) (\<lambda>x. returns ((x AND - 0x05) OR 0x08))) (\<lambda>d.
     bind_io (write_reg 0x91 d) (\<lambda>_.
     bind_io (if r = 0 then bind_io (read 0x11) (\<lambda>x. returns ((x AND - 0x03) OR 0x01))
              else if r = 1 then bind_io (read 0x11) (\<lambda>x. returns ((x AND - 0x02) OR 0x02))
              else bind_io (read 0x11) (\<lambda>x. returns ((x OR 0x01) OR 0x02))) (\<lambda>r.
     write_reg 0x91 r)))"

subsection \<open>1 Hz pin\<close>

text \<open>
  \<^verbatim>\<open>
  def enableHzPin(self):
      self.__write(0x8f,0x04)

  def disableHzPin(self):
      self.__write(0x8f,0x00)
  \<close>
\<close>

definition enableHzPin :: "unit io" where
  "enableHzPin = write_reg 0x8f 0x04"

definition disableHzPin :: "unit io" where
  "disableHzPin = write_reg 0x8f 0x00"

subsection \<open>Observing an outcome\<close>

text \<open>
  The state an outcome leaves behind and what it returned or raised; a call that never
  returns leaves neither.
\<close>

fun state_of :: "'a outcome \<Rightarrow> bus option" where
  "state_of (Returns x b) = Some b"
| "state_of (Raises e b) = Some b"
| "state_of Hangs = None"

fun result_of :: "'a outcome \<Rightarrow> (error + 'a) option" where
  "result_of (Returns x b) = Some (Inr x)"
| "result_of (Raises e b) = Some (Inl e)"
| "result_of Hangs = None"

text \<open>
  \<open>returned\<close>: the call returned normally. \<open>faulted\<close>: the call raised the transport
  fault. \<open>final f\<close>: the observation \<open>f\<close> of the state the call left behind.
\<close>

fun returned :: "'a outcome \<Rightarrow> bool" where
  "returned (Returns x b) = True"
| "returned (Raises e b) = False"
| "returned Hangs = False"

fun faulted :: "'a outcome \<Rightarrow> bool" where
  "faulted (Returns x b) = False"
| "faulted (Raises e b) = (e = TransportFault)"
| "faulted Hangs = False"

definition final :: "(bus \<Rightarrow> 'c) \<Rightarrow> 'a outcome \<Rightarrow> 'c option" where
  "final f out = map_option f (state_of out)"

text \<open>
  \<open>released\<close>: the call left chip select deasserted and the bus free.
  \<open>held\<close>: the call left chip select asserted and the bus owned.
\<close>

definition released :: "'a outcome \<Rightarrow> bool" where
  "released out = (final cs out = Some False \<and> final locked out = Some False)"

definition held :: "'a outcome \<Rightarrow> bool" where
  "held out = (final cs out = Some True \<and> final locked out = Some True)"

text \<open>
  Modelled from the spec: a mock bus at rest (chip select low, nobody owns the bus,
  nothing written yet) in front of a device whose registers hold \<open>r\<close>; \<open>f\<close> is the
  schedule of transport faults.
\<close>

definition mock_bus :: "(nat \<Rightarrow> u8) \<Rightarrow> (nat \<Rightarrow> bool) \<Rightarrow> bus" where
  "mock_bus r f = \<lparr>regs = r, cs = False, locked = False, written = [], transfers = 0, faulty = f\<rparr>"

text \<open>
  Fixtures for concrete runs: a register file that holds \<open>c\<close> in the control register
  \<open>0x0f\<close> and 0 elsewhere, the fault schedule without faults, and the one whose
  transfer number \<open>k\<close> (counted from 0) raises.
\<close>

definition ctrl_regs :: "u8 \<Rightarrow> nat \<Rightarrow> u8" where
  "ctrl_regs c a = (if a = 15 then c else 0)"

definition no_fault :: "nat \<Rightarrow> bool" where
  "no_fault n = False"

definition fault_at :: "nat \<Rightarrow> nat \<Rightarrow> bool" where
  "fault_at k n = (n = k)"

text \<open>
  The control register \<open>0x0f\<close> of the device, its write-protect bit (bit 6), and the
  trickle-charger register \<open>0x11\<close>.
\<close>

definition ctrl_reg :: "bus \<Rightarrow> u8" where
  "ctrl_reg b = regs b 0x0f"

definition charger_reg :: "bus \<Rightarrow> u8" where
  "charger_reg b = regs b 0x11"

definition wp_bit :: "bus \<Rightarrow> bool" where
  "wp_bit b = bit (ctrl_reg b) 6"

text \<open>Two calls in a row, the second made only when the first returned.\<close>

definition then_io :: "'a io \<Rightarrow> 'b io \<Rightarrow> 'b io" where
  "then_io m n = bind_io m (\<lambda>_. n)"

section \<open>Properties\<close>

subsection \<open>BCD codec\<close>

lemma int_div_nonneg: "0 \<le> a \<Longrightarrow> int_div a b = a div b"
  by (simp add: int_div_def)

lemma and_15: "(x::int) AND 0x0f = x mod 16"
  using take_bit_eq_mask [of 4 x] by (simp add: take_bit_eq_mod mask_eq_exp_minus_1)

lemma and_7: "(x::int) AND 0x07 = x mod 8"
  using take_bit_eq_mask [of 3 x] by (simp add: take_bit_eq_mod mask_eq_exp_minus_1)

lemma bcdtodec_arith: "bcdtodec byte = (byte div 16 mod 8) * 10 + byte mod 16"
  by (simp add: bcdtodec_def and_15 and_7 drop_bit_eq_div)

lemma dectobcd_nonneg: "0 \<le> n \<Longrightarrow> dectobcd n = (n div 10) * 16 + n mod 10"
  by (simp add: dectobcd_def int_div_nonneg Let_def minus_mult_div_eq_mod algebra_simps)

text \<open>
  C1 (as amended). For every integer \<open>n\<close> in \<open>[0,79]\<close>, decoding the BCD encoding of \<open>n\<close>
  returns \<open>n\<close>. \<open>bcdtodec\<close> keeps only the low three bits of the tens nibble, so for
  \<open>n\<close> in \<open>[80,99]\<close> it returns \<open>n - 80\<close>.
\<close>

theorem bcd_roundtrip:
  assumes "0 \<le> n" and "n \<le> 99"
  shows "bcdtodec (dectobcd n) = (if n < 80 then n else n - 80)"
proof -
  define u where "u = n div 10"
  define l where "l = n mod 10"
  have n: "n = u * 10 + l" by (simp add: u_def l_def)
  have l: "0 \<le> l" "l < 10" by (simp_all add: l_def)
  have u: "0 \<le> u" "u \<le> 9" using assms by (simp_all add: u_def)
  have d: "(u * 16 + l) div 16 = u" using l by simp
  have m: "(u * 16 + l) mod 16 = l" using l by simp
  have "bcdtodec (dectobcd n) = (u mod 8) * 10 + l"
    unfolding dectobcd_nonneg [OF assms(1)] bcdtodec_arith
    unfolding u_def [symmetric] l_def [symmetric] d m by simp
  moreover have "u mod 8 = (if u < 8 then u else u - 8)" using u by presburger
  moreover have "u < 8 \<longleftrightarrow> n < 80" using n l by linarith
  ultimately show ?thesis using n by simp
qed

theorem bcd_roundtrip_witness: "bcdtodec (dectobcd 59) = 59 \<and> bcdtodec (dectobcd 99) = 19"
  using bcd_roundtrip [of 59] bcd_roundtrip [of 99] by simp

text \<open>
  C1 as stated fails at \<open>n = 80\<close>: the encoding is \<open>0x80\<close>, whose tens nibble 8 is
  masked to 0.
\<close>

theorem bcd_roundtrip_counterexample: "dectobcd 80 = 0x80 \<and> bcdtodec (dectobcd 80) = 0"
  by (simp add: dectobcd_def bcdtodec_def int_div_def)

subsection \<open>Day of the week\<close>

lemma getitem_month:
  "1 \<le> m \<Longrightarrow> m \<le> 12 \<Longrightarrow> getitem month_table (m - 1) = Inr (month_table ! nat (m - 1))"
  by (simp add: getitem_def month_table_def)

text \<open>
  C4. For a month in 1 to 12 and a year that is not negative after the adjustment
  (the range in which \<open>int(y/4)\<close> is floor division), \<open>getDayFromDate(y,m,d)\<close>
  decrements \<open>y\<close> by 1 when \<open>m < 3\<close>, adds the offset of the table
  \<open>(0,3,2,5,0,3,5,1,4,6,2,4)\<close> at index \<open>m-1\<close> and returns
  \<open>((y + y/4 - y/100 + y/400 + offset + d) mod 7) + 1\<close>, a weekday in 1 to 7; in
  particular \<open>getDayFromDate(2024,1,1) = 2\<close> and \<open>getDayFromDate(2000,1,1) = 7\<close>.
\<close>

theorem getDayFromDate_formula:
  assumes "1 \<le> m" and "m \<le> 12" and "y' = y - (if m < 3 then 1 else 0)" and "0 \<le> y'"
  shows "getDayFromDate y m d =
           Inr ((y' + y' div 4 - y' div 100 + y' div 400
                 + [0, 3, 2, 5, 0, 3, 5, 1, 4, 6, 2, 4] ! nat (m - 1) + d) mod 7 + 1)
         \<and> (\<exists>w. getDayFromDate y m d = Inr w \<and> 1 \<le> w \<and> w \<le> 7)
         \<and> getDayFromDate 2024 1 1 = Inr 2
         \<and> getDayFromDate 2000 1 1 = Inr 7"
proof -
  have f: "getDayFromDate y m d =
           Inr ((y' + y' div 4 - y' div 100 + y' div 400 + month_table ! nat (m - 1) + d) mod 7 + 1)"
    using assms(3,4) getitem_month [OF assms(1,2)]
    by (simp add: getDayFromDate_def Let_def int_div_nonneg)
  have a: "getDayFromDate 2024 1 1 = Inr 2"
    by (simp add: getDayFromDate_def getitem_def month_table_def int_div_def)
  have b: "getDayFromDate 2000 1 1 = Inr 7"
    by (simp add: getDayFromDate_def getitem_def month_table_def int_div_def)
  from f a b show ?thesis by (simp add: month_table_def)
qed

theorem getDayFromDate_formula_witness:
  "getDayFromDate 2024 2 29 = Inr 5 \<and> getDayFromDate 2024 1 1 = Inr 2
   \<and> getDayFromDate 2000 1 1 = Inr 7"
  using getDayFromDate_formula [of 2 2023 2024 29] by simp

text \<open>
  Outside that range the method behaves differently. For year 0 and a month before
  March the adjusted year is -1, where \<open>int(y/4)\<close> is 0 and floor division gives -1: the
  method returns 1 where the formula with floor division gives 7. Month 0 takes the last
  entry of the table (a negative index counts from the end) and month 13 raises
  \<open>IndexError\<close>.
\<close>

lemma getDayFromDate_outside:
  "getDayFromDate 0 1 1 = Inr 1"
  "((- 1 + (- 1) div 4 - (- 1) div 100 + (- 1) div 400 + 0 + 1) mod 7 + 1) = (7::int)"
  "getDayFromDate 2024 0 1 = Inr 6"
  "getDayFromDate 2024 13 1 = Inl IndexError"
  by (simp_all add: getDayFromDate_def getitem_def month_table_def int_div_def)

subsection \<open>Hour packing\<close>

lemma hours_12:
  "1 \<le> h \<Longrightarrow> h \<le> 12 \<Longrightarrow>
   h = 1 \<or> h = 2 \<or> h = 3 \<or> h = 4 \<or> h = 5 \<or> h = 6 \<or> h = 7 \<or> h = 8 \<or> h = 9
   \<or> h = 10 \<or> h = 11 \<or> h = (12::int)"
  by arith

lemma hour_12:
  assumes "1 \<le> h" "h \<le> 12" "th \<noteq> 0" "ap = 0 \<or> ap = 1"
  shows "getTime_hour (setTime_hour h th ap) = (h, 1, ap)"
  using hours_12 [OF assms(1,2)] assms(3,4)
  by (elim disjE)
     (simp_all add: getTime_hour_def setTime_hour_def dectobcd_def bcdtodec_def int_div_def)

lemma hour_24:
  assumes "0 \<le> h" "h \<le> 23"
  shows "getTime_hour (setTime_hour h 0 ap) = (h, 0, 0)"
proof -
  have "h = 0 \<or> h = 1 \<or> h = 2 \<or> h = 3 \<or> h = 4 \<or> h = 5 \<or> h = 6 \<or> h = 7 \<or> h = 8
        \<or> h = 9 \<or> h = 10 \<or> h = 11 \<or> h = 12 \<or> h = 13 \<or> h = 14 \<or> h = 15 \<or> h = 16
        \<or> h = 17 \<or> h = 18 \<or> h = 19 \<or> h = 20 \<or> h = 21 \<or> h = 22 \<or> h = 23"
    using assms by arith
  then show ?thesis
    by (elim disjE)
       (simp_all add: getTime_hour_def setTime_hour_def dectobcd_def bcdtodec_def int_div_def)
qed

text \<open>
  C5. For every hour in 1 to 12 and each AM/PM value (0 or 1), the hour byte that
  \<open>setTime\<close> packs in 12-hour mode is decoded by \<open>getTime\<close> to the original hour, the
  mode flag 1 and the original AM/PM value; for every hour in 0 to 23 packed in 24-hour
  mode, \<open>getTime\<close> decodes the original hour with the mode flag 0.
\<close>

theorem hour_roundtrip:
  "(1 \<le> h \<and> h \<le> 12 \<and> th \<noteq> 0 \<and> (ap = 0 \<or> ap = 1)
      \<longrightarrow> getTime_hour (setTime_hour h th ap) = (h, 1, ap))
   \<and> (0 \<le> h \<and> h \<le> 23 \<longrightarrow> getTime_hour (setTime_hour h 0 ap) = (h, 0, 0))"
  using hour_12 [of h th ap] hour_24 [of h ap] by blast

theorem hour_roundtrip_witness:
  "getTime_hour (setTime_hour 12 1 1) = (12, 1, 1) \<and> getTime_hour (setTime_hour 12 0 1) = (12, 0, 0)"
  using hour_roundtrip [of 12 1 1] by simp

subsection \<open>The transaction framer in closed form\<close>

lemma lock_free: "\<not> locked b \<Longrightarrow> lock b = Some (b\<lparr>locked := True\<rparr>)"
  by (subst lock.simps) (simp add: try_lock_def)

lemma lock_Some:
  assumes "lock b = Some y"
  shows "\<not> locked b"
  by (rule lock.raw_induct [where P = "\<lambda>b y. \<not> locked b", OF _ assms])
     (auto simp: try_lock_def split: if_splits)

lemma lock_eq: "lock b = (if locked b then None else Some (b\<lparr>locked := True\<rparr>))"
  using lock_free [of b] lock_Some [of b] by (cases "lock b") auto

lemma prepare_eq:
  "prepare b = (if locked b then Hangs else Returns () (b\<lparr>cs := True, locked := True\<rparr>))"
  by (simp add: prepare_def bind_io_def lock_io_def lock_eq configure_def spi_configure_def
      set_cs_def)

lemma finish_eq: "finish b = Returns () (b\<lparr>cs := False, locked := False\<rparr>)"
  by (simp add: finish_def bind_io_def set_cs_def unlock_def spi_unlock_def)

lemma bind_ReturnsD:
  "bind_io m f b = Returns y b' \<Longrightarrow> \<exists>x b1. m b = Returns x b1 \<and> f x b1 = Returns y b'"
  by (auto simp: bind_io_def split: outcome.splits)

lemma bind_RaisesD:
  "bind_io m f b = Raises e b' \<Longrightarrow>
     m b = Raises e b' \<or> (\<exists>x b1. m b = Returns x b1 \<and> f x b1 = Raises e b')"
  by (auto simp: bind_io_def split: outcome.splits)

lemma getitem_burst:
  "0 \<le> loc \<Longrightarrow> loc < 18 \<Longrightarrow> getitem (burst r 19) (loc + 1) = Inr (r (nat loc))"
  by (simp add: getitem_def burst_def nat_add_distrib del: upt_Suc)

lemma read_eq:
  "read loc b =
     (if locked b then Hangs
      else if faulty b (transfers b)
        then Raises TransportFault (b\<lparr>cs := True, locked := True, transfers := Suc (transfers b)\<rparr>)
      else if loc = -1
        then Raises TypeError (b\<lparr>cs := False, locked := False, transfers := Suc (transfers b)\<rparr>)
      else case getitem (burst (regs b) 19) (loc + 1) of
             Inl e \<Rightarrow> Raises e (b\<lparr>cs := False, locked := False, transfers := Suc (transfers b)\<rparr>)
           | Inr v \<Rightarrow> Returns (uint v)
                        (b\<lparr>cs := False, locked := False, transfers := Suc (transfers b)\<rparr>))"
  by (simp add: read_def bind_io_def prepare_eq finish_eq spi_readinto_def from_sum_def
      raise_def returns_def split: sum.splits)

lemma read_reg_eq:
  "0 \<le> loc \<Longrightarrow> loc < 18 \<Longrightarrow> read loc b =
     (if locked b then Hangs
      else if faulty b (transfers b)
        then Raises TransportFault (b\<lparr>cs := True, locked := True, transfers := Suc (transfers b)\<rparr>)
      else Returns (uint (regs b (nat loc)))
             (b\<lparr>cs := False, locked := False, transfers := Suc (transfers b)\<rparr>))"
  by (simp add: read_eq getitem_burst)

lemma bytearray_ctrl_and: "bytearray [0x8f, uint (w :: u8) AND 0x04] = Inr [0x8f, w AND 0x04]"
  by (simp add: bytearray_def AND_upper2' of_int_and_eq)

lemma or_0x40_bound: "uint (w :: u8) OR 0x40 < 256"
  using OR_upper [of "uint w" 8 "0x40"] uint_lt2p [of w] by simp

lemma bytearray_ctrl_or: "bytearray [0x8f, uint (w :: u8) OR 0x40] = Inr [0x8f, w OR 0x40]"
  by (simp add: bytearray_def or_0x40_bound of_int_or_eq)

lemma writeOn_eq:
  "writeOn b =
     (if locked b then Hangs
      else if faulty b (transfers b)
        then Raises TransportFault (b\<lparr>cs := True, locked := True, transfers := Suc (transfers b)\<rparr>)
      else if faulty b (Suc (transfers b))
        then Raises TransportFault
               (b\<lparr>cs := True, locked := True, transfers := Suc (Suc (transfers b))\<rparr>)
      else Returns ()
             (b\<lparr>regs := (regs b)(15 := regs b 15 AND 0x04), cs := False, locked := False,
                written := written b @ [[0x8f, regs b 15 AND 0x04]],
                transfers := Suc (Suc (transfers b))\<rparr>))"
  by (simp add: writeOn_def bind_io_def read_reg_eq prepare_eq finish_eq from_sum_def
      bytearray_ctrl_and returns_def spi_write_def)

lemma writeOff_eq:
  "writeOff b =
     (if locked b then Hangs
      else if faulty b (transfers b)
        then Raises TransportFault (b\<lparr>cs := True, locked := True, transfers := Suc (transfers b)\<rparr>)
      else if faulty b (Suc (transfers b))
        then Raises TransportFault
               (b\<lparr>cs := True, locked := True, transfers := Suc (Suc (transfers b))\<rparr>)
      else Returns ()
             (b\<lparr>regs := (regs b)(15 := regs b 15 OR 0x40), cs := False, locked := False,
                written := written b @ [[0x8f, regs b 15 OR 0x40]],
                transfers := Suc (Suc (transfers b))\<rparr>))"
  by (simp add: writeOff_def bind_io_def read_reg_eq prepare_eq finish_eq from_sum_def
      bytearray_ctrl_or returns_def spi_write_def)

lemma writeBuf_eq:
  "writeBuf buf b =
     (let t = transfers b;
          unlock_frame = [0x8f, regs b 15 AND 0x04];
          r1 = (regs b)(15 := regs b 15 AND 0x04);
          r2 = dev_write r1 buf;
          lock_frame = [0x8f, r2 15 OR 0x40]
      in if locked b then Hangs
      else if faulty b t
        then Raises TransportFault (b\<lparr>cs := True, locked := True, transfers := Suc t\<rparr>)
      else if faulty b (Suc t)
        then Raises TransportFault (b\<lparr>cs := True, locked := True, transfers := Suc (Suc t)\<rparr>)
      else if faulty b (Suc (Suc t))
        then Raises TransportFault
               (b\<lparr>regs := r1, cs := True, locked := True,
                  written := written b @ [unlock_frame], transfers := Suc (Suc (Suc t))\<rparr>)
      else if faulty b (Suc (Suc (Suc t)))
        then Raises TransportFault
               (b\<lparr>regs := r2, cs := True, locked := True,
                  written := written b @ [unlock_frame, buf],
                  transfers := Suc (Suc (Suc (Suc t)))\<rparr>)
      else if faulty b (Suc (Suc (Suc (Suc t))))
        then Raises TransportFault
               (b\<lparr>regs := r2, cs := True, locked := True,
                  written := written b @ [unlock_frame, buf],
                  transfers := Suc (Suc (Suc (Suc (Suc t))))\<rparr>)
      else Returns ()
             (b\<lparr>regs := r2(15 := r2 15 OR 0x40), cs := False, locked := False,
                written := written b @ [unlock_frame, buf, lock_frame],
                transfers := Suc (Suc (Suc (Suc (Suc t))))\<rparr>))"
  by (simp add: writeBuf_def bind_io_def writeOn_eq writeOff_eq prepare_eq finish_eq
      spi_write_def Let_def)

lemma write_reg_Inr: "bytearray [loc, val] = Inr buf \<Longrightarrow> write_reg loc val b = writeBuf buf b"
  by (simp add: write_reg_def writeBuf_def from_sum_def returns_def bind_io_def
      split: outcome.splits)

lemma write_reg_Inl:
  "bytearray [loc, val] = Inl e \<Longrightarrow>
   write_reg loc val b =
     (case writeOn b of
        Returns u b1 \<Rightarrow> Raises e (b1\<lparr>cs := True, locked := True\<rparr>)
      | Raises e' b1 \<Rightarrow> Raises e' b1
      | Hangs \<Rightarrow> Hangs)"
  by (simp add: write_reg_def from_sum_def raise_def bind_io_def prepare_eq writeOn_eq)

subsection \<open>Runs without faults\<close>

lemma read_ok:
  "\<not> locked b \<Longrightarrow> \<forall>n. \<not> faulty b n \<Longrightarrow> 0 \<le> loc \<Longrightarrow> loc < 18 \<Longrightarrow>
   read loc b = Returns (uint (regs b (nat loc)))
                  (b\<lparr>cs := False, locked := False, transfers := Suc (transfers b)\<rparr>)"
  by (simp add: read_reg_eq)

lemma writeBuf_ok:
  "\<not> locked b \<Longrightarrow> \<forall>n. \<not> faulty b n \<Longrightarrow>
   writeBuf buf b =
     Returns ()
       (b\<lparr>regs := (dev_write ((regs b)(15 := regs b 15 AND 0x04)) buf)
                     (15 := dev_write ((regs b)(15 := regs b 15 AND 0x04)) buf 15 OR 0x40),
          cs := False, locked := False,
          written := written b @ [[0x8f, regs b 15 AND 0x04], buf,
                                  [0x8f, dev_write ((regs b)(15 := regs b 15 AND 0x04)) buf 15 OR 0x40]],
          transfers := Suc (Suc (Suc (Suc (Suc (transfers b)))))\<rparr>)"
  by (simp add: writeBuf_eq Let_def)

lemma setTime_buf:
  "bytearray [0x80, dectobcd 0, dectobcd 30, setTime_hour 14 0 0] = Inr [0x80, 0x00, 0x30, 0x14]"
  by (simp add: bytearray_def dectobcd_def int_div_def setTime_hour_def)

text \<open>
  C9. On a free bus without faults, setting the time to hours 14, minutes 30,
  seconds 0 in 24-hour mode returns, and exactly three frames are written: the data
  frame \<open>[0x80, 0x00, 0x30, 0x14]\<close> (write address, BCD seconds, BCD minutes, BCD hours),
  with one unlock write of the control byte before it and one lock write of the control
  byte after it.
\<close>

theorem setTime_frames:
  assumes "\<not> locked b" and "\<forall>n. \<not> faulty b n"
  shows "\<exists>b'. setTime 14 30 0 0 0 b = Returns () b'
           \<and> written b' = written b @ [[0x8f, ctrl_reg b AND 0x04],
                                       [0x80, 0x00, 0x30, 0x14],
                                       [0x8f, (ctrl_reg b AND 0x04) OR 0x40]]"
  using assms
  by (simp add: setTime_def setTime_buf from_sum_def returns_def bind_io_def writeBuf_ok ctrl_reg_def)

theorem setTime_frames_witness:
  "\<exists>b'. setTime 14 30 0 0 0 (mock_bus (ctrl_regs 0x43) no_fault) = Returns () b'
      \<and> written b' = [[0x8f, 0x00], [0x80, 0x00, 0x30, 0x14], [0x8f, 0x40]]"
  using setTime_frames [of "mock_bus (ctrl_regs 0x43) no_fault"]
  by (simp add: mock_bus_def ctrl_regs_def no_fault_def ctrl_reg_def)

lemma hz_bufs:
  "bytearray [0x8f, 0x04] = Inr [0x8f, 0x04]" "bytearray [0x8f, 0x00] = Inr [0x8f, 0x00]"
  by (simp_all add: bytearray_def)

text \<open>
  C10. For every prior state of the control register, on a free bus without faults,
  \<open>enableHzPin\<close> writes the data byte \<open>0x04\<close> and \<open>disableHzPin\<close> writes \<open>0x00\<close> to the
  control register, so both clear the alarm-enable bits 0 and 1 whatever they were, and
  after the write-protect restore the control register is \<open>0x44\<close> (enable) or \<open>0x40\<close>
  (disable).
\<close>

theorem hz_pin_control:
  assumes "\<not> locked b" and "\<forall>n. \<not> faulty b n"
  shows "(\<exists>b'. enableHzPin b = Returns () b'
            \<and> written b' = written b @ [[0x8f, ctrl_reg b AND 0x04], [0x8f, 0x04], [0x8f, 0x44]]
            \<and> ctrl_reg b' = 0x44 \<and> \<not> bit (ctrl_reg b') 0 \<and> \<not> bit (ctrl_reg b') 1)
       \<and> (\<exists>b'. disableHzPin b = Returns () b'
            \<and> written b' = written b @ [[0x8f, ctrl_reg b AND 0x04], [0x8f, 0x00], [0x8f, 0x40]]
            \<and> ctrl_reg b' = 0x40 \<and> \<not> bit (ctrl_reg b') 0 \<and> \<not> bit (ctrl_reg b') 1)"
  using assms
  by (simp add: enableHzPin_def disableHzPin_def write_reg_Inr [OF hz_bufs(1)]
      write_reg_Inr [OF hz_bufs(2)] writeBuf_ok ctrl_reg_def)

theorem hz_pin_control_witness:
  "(\<exists>b'. enableHzPin (mock_bus (ctrl_regs 0x43) no_fault) = Returns () b'
            \<and> written b' = [[0x8f, 0x00], [0x8f, 0x04], [0x8f, 0x44]]
            \<and> ctrl_reg b' = 0x44 \<and> \<not> bit (ctrl_reg b') 0 \<and> \<not> bit (ctrl_reg b') 1)
   \<and> (\<exists>b'. disableHzPin (mock_bus (ctrl_regs 0x43) no_fault) = Returns () b'
            \<and> written b' = [[0x8f, 0x00], [0x8f, 0x00], [0x8f, 0x40]]
            \<and> ctrl_reg b' = 0x40 \<and> \<not> bit (ctrl_reg b') 0 \<and> \<not> bit (ctrl_reg b') 1)"
  using hz_pin_control [of "mock_bus (ctrl_regs 0x43) no_fault"]
  by (simp add: mock_bus_def ctrl_regs_def no_fault_def ctrl_reg_def)

subsection \<open>Write protection\<close>

lemma bit6_or: "bit ((w :: u8) OR 0x40) 6"
  by (simp add: bit_or_iff)

lemma writeBuf_Returns:
  "writeBuf buf b = Returns u b' \<Longrightarrow> wp_bit b' \<and> \<not> cs b' \<and> \<not> locked b'"
  by (auto simp: writeBuf_eq Let_def wp_bit_def ctrl_reg_def bit6_or split: if_splits)

lemma writeBuf_Raises:
  "writeBuf buf b = Raises TransportFault b' \<Longrightarrow> cs b' \<and> locked b'"
  by (auto simp: writeBuf_eq Let_def split: if_splits)

lemma write_reg_Returns:
  "write_reg loc val b = Returns u b' \<Longrightarrow> wp_bit b' \<and> \<not> cs b' \<and> \<not> locked b'"
proof (cases "bytearray [loc, val]")
  case (Inl e)
  assume "write_reg loc val b = Returns u b'"
  then show ?thesis by (simp add: write_reg_Inl [OF Inl] split: outcome.splits)
next
  case (Inr buf)
  assume "write_reg loc val b = Returns u b'"
  then show ?thesis using writeBuf_Returns [of buf b u b'] by (simp add: write_reg_Inr [OF Inr])
qed

lemma write_reg_Raises:
  "write_reg loc val b = Raises TransportFault b' \<Longrightarrow> cs b' \<and> locked b'"
proof (cases "bytearray [loc, val]")
  case (Inl e)
  assume "write_reg loc val b = Raises TransportFault b'"
  then show ?thesis
    by (auto simp: write_reg_Inl [OF Inl] writeOn_eq split: outcome.splits if_splits)
next
  case (Inr buf)
  assume "write_reg loc val b = Raises TransportFault b'"
  then show ?thesis using writeBuf_Raises [of buf b b'] by (simp add: write_reg_Inr [OF Inr])
qed

lemma bytearray_pair:
  "0 \<le> loc \<Longrightarrow> loc < 256 \<Longrightarrow> 0 \<le> val \<Longrightarrow> val < 256 \<Longrightarrow>
   bytearray [loc, val] = Inr [word_of_int loc, word_of_int val]"
  by (simp add: bytearray_def)

lemma returned_iff: "returned out \<longleftrightarrow> (\<exists>x b. out = Returns x b)"
  by (cases out) simp_all

lemma faulted_iff: "faulted out \<longleftrightarrow> (\<exists>b. out = Raises TransportFault b)"
  by (cases out) simp_all

lemma final_simps:
  "final f (Returns x b) = Some (f b)" "final f (Raises e b) = Some (f b)" "final f Hangs = None"
  by (simp_all add: final_def)

text \<open>
  C2 (as amended). After any write operation (\<open>__write\<close> or \<open>__writeBuf\<close>) that
  returns, the write-protect bit (bit 6) of the control register is set; on a free bus
  without faults every write operation returns. (The driver has no exception handling:
  when a transfer raises, the operation ends there and the restore step does not run.)
\<close>

theorem write_restores_protect:
  "(returned (write_reg loc val b) \<longrightarrow> final wp_bit (write_reg loc val b) = Some True)
   \<and> (returned (writeBuf buf b) \<longrightarrow> final wp_bit (writeBuf buf b) = Some True)
   \<and> (\<not> locked b \<and> (\<forall>n. \<not> faulty b n) \<longrightarrow>
        returned (writeBuf buf b)
        \<and> (0 \<le> loc \<and> loc < 256 \<and> 0 \<le> val \<and> val < 256 \<longrightarrow> returned (write_reg loc val b)))"
proof -
  have 1: "returned (write_reg loc val b) \<longrightarrow> final wp_bit (write_reg loc val b) = Some True"
    using write_reg_Returns [of loc val b] by (auto simp: returned_iff final_simps)
  have 2: "returned (writeBuf buf b) \<longrightarrow> final wp_bit (writeBuf buf b) = Some True"
    using writeBuf_Returns [of buf b] by (auto simp: returned_iff final_simps)
  have 3: "\<not> locked b \<and> (\<forall>n. \<not> faulty b n) \<longrightarrow> returned (writeBuf buf b)"
    by (simp add: writeBuf_ok)
  have 4: "\<not> locked b \<and> (\<forall>n. \<not> faulty b n) \<longrightarrow>
           0 \<le> loc \<and> loc < 256 \<and> 0 \<le> val \<and> val < 256 \<longrightarrow> returned (write_reg loc val b)"
    by (auto simp: writeBuf_ok write_reg_Inr [OF bytearray_pair])
  from 1 2 3 4 show ?thesis by blast
qed

theorem write_restores_protect_witness:
  "returned (writeBuf [0x80, 0x00, 0x30, 0x14] (mock_bus (ctrl_regs 0x03) no_fault))
   \<and> final wp_bit (writeBuf [0x80, 0x00, 0x30, 0x14] (mock_bus (ctrl_regs 0x03) no_fault)) = Some True
   \<and> returned (write_reg 0x91 0xA5 (mock_bus (ctrl_regs 0x03) no_fault))
   \<and> final wp_bit (write_reg 0x91 0xA5 (mock_bus (ctrl_regs 0x03) no_fault)) = Some True"
  using write_restores_protect [of "0x91" "0xA5" "mock_bus (ctrl_regs 0x03) no_fault"
          "[0x80, 0x00, 0x30, 0x14]"]
  by (simp add: mock_bus_def no_fault_def)

text \<open>
  C2 as stated fails when the data transfer of \<open>setTime\<close> (transfer number 2, after the
  read and the write of the unlock step) raises: the fault reaches the caller with the
  write-protect bit still clear.
\<close>

theorem write_restores_protect_counterexample:
  "faulted (setTime 14 30 0 0 0 (mock_bus (ctrl_regs 0x40) (fault_at 2)))
   \<and> final wp_bit (setTime 14 30 0 0 0 (mock_bus (ctrl_regs 0x40) (fault_at 2))) = Some False"
  by (simp add: setTime_def setTime_buf from_sum_def returns_def bind_io_def writeBuf_eq Let_def
      mock_bus_def ctrl_regs_def fault_at_def wp_bit_def ctrl_reg_def final_simps)

subsection \<open>Chip select and bus ownership\<close>

lemma read_all_eq:
  "read_all b =
     (if locked b then Hangs
      else if faulty b (transfers b)
        then Raises TransportFault (b\<lparr>cs := True, locked := True, transfers := Suc (transfers b)\<rparr>)
      else Returns (burst (regs b) 19)
             (b\<lparr>cs := False, locked := False, transfers := Suc (transfers b)\<rparr>))"
  by (simp add: read_all_def bind_io_def prepare_eq finish_eq spi_readinto_def returns_def)

lemma getitem_error: "getitem xs i = Inl e \<Longrightarrow> e = IndexError"
  by (auto simp: getitem_def split: if_splits)

lemma framed_read:
  "(returned (read loc b) \<longrightarrow> released (read loc b)) \<and> (faulted (read loc b) \<longrightarrow> held (read loc b))"
  by (auto simp: read_eq released_def held_def final_simps split: sum.splits dest: getitem_error)

lemma framed_read_all: 
  "(returned (read_all b) \<longrightarrow> released (read_all b)) \<and> (faulted (read_all b) \<longrightarrow> held (read_all b))"
  by (auto simp: read_all_eq released_def held_def final_simps)

lemma framed_writeOn: 
  "(returned (writeOn b) \<longrightarrow> released (writeOn b)) \<and> (faulted (writeOn b) \<longrightarrow> held (writeOn b))"
  by (auto simp: writeOn_eq released_def held_def final_simps)

lemma framed_writeOff: 
  "(returned (writeOff b) \<longrightarrow> released (writeOff b)) \<and> (faulted (writeOff b) \<longrightarrow> held (writeOff b))"
  by (auto simp: writeOff_eq released_def held_def final_simps)

lemma framed_writeBuf: 
  "(returned (writeBuf buf b) \<longrightarrow> released (writeBuf buf b))
   \<and> (faulted (writeBuf buf b) \<longrightarrow> held (writeBuf buf b))"
  using writeBuf_Returns [of buf b] writeBuf_Raises [of buf b]
  by (auto simp: returned_iff faulted_iff released_def held_def final_simps)

lemma framed_write_reg: 
  "(returned (write_reg loc val b) \<longrightarrow> released (write_reg loc val b))
   \<and> (faulted (write_reg loc val b) \<longrightarrow> held (write_reg loc val b))"
  using write_reg_Returns [of loc val b] write_reg_Raises [of loc val b]
  by (auto simp: returned_iff faulted_iff released_def held_def final_simps)

text \<open>
  C8 (as amended). Every bus transaction of the framer (\<open>__read\<close>, \<open>__writeOn\<close>,
  \<open>__writeOff\<close>, \<open>__write\<close>, \<open>__writeBuf\<close>) that returns has deasserted chip select and
  released the bus, and on a free bus without faults they return. The driver has no
  exception handling: when the underlying read or write raises a transport fault, the
  fault reaches the caller with chip select still asserted and the bus still owned.
\<close>

theorem transaction_release:
  "(returned (read_all b) \<longrightarrow> released (read_all b))
   \<and> (faulted (read_all b) \<longrightarrow> held (read_all b))
   \<and> (returned (read loc b) \<longrightarrow> released (read loc b))
   \<and> (faulted (read loc b) \<longrightarrow> held (read loc b))
   \<and> (returned (writeOn b) \<longrightarrow> released (writeOn b))
   \<and> (faulted (writeOn b) \<longrightarrow> held (writeOn b))
   \<and> (returned (writeOff b) \<longrightarrow> released (writeOff b))
   \<and> (faulted (writeOff b) \<longrightarrow> held (writeOff b))
   \<and> (returned (write_reg wloc val b) \<longrightarrow> released (write_reg wloc val b))
   \<and> (faulted (write_reg wloc val b) \<longrightarrow> held (write_reg wloc val b))
   \<and> (returned (writeBuf buf b) \<longrightarrow> released (writeBuf buf b))
   \<and> (faulted (writeBuf buf b) \<longrightarrow> held (writeBuf buf b))
   \<and> (\<not> locked b \<and> (\<forall>n. \<not> faulty b n) \<longrightarrow>
        returned (read_all b) \<and> returned (writeOn b) \<and> returned (writeOff b)
        \<and> returned (writeBuf buf b))"
  using framed_read_all [of b] framed_read [of loc b] framed_writeOn [of b] framed_writeOff [of b]
    framed_write_reg [of wloc val b] framed_writeBuf [of buf b]
  by (simp add: read_all_eq writeOn_eq writeOff_eq writeBuf_ok)

lemma run_simps:
  "locked (mock_bus r f) = False" "faulty (mock_bus r f) = f" "transfers (mock_bus r f) = 0"
  by (simp_all add: mock_bus_def)

theorem transaction_release_witness:
  "released (read 0x02 (mock_bus (ctrl_regs 0x40) no_fault))
   \<and> held (read 0x02 (mock_bus (ctrl_regs 0x40) (fault_at 0)))
   \<and> released (writeBuf [0x80, 0x00, 0x30, 0x14] (mock_bus (ctrl_regs 0x40) no_fault))
   \<and> held (writeBuf [0x80, 0x00, 0x30, 0x14] (mock_bus (ctrl_regs 0x40) (fault_at 2)))"
  using transaction_release [of "mock_bus (ctrl_regs 0x40) no_fault" "0x02" "0x80" "0x00"
          "[0x80, 0x00, 0x30, 0x14]"]
        transaction_release [of "mock_bus (ctrl_regs 0x40) (fault_at 0)" "0x02" "0x80" "0x00"
          "[0x80, 0x00, 0x30, 0x14]"]
        transaction_release [of "mock_bus (ctrl_regs 0x40) (fault_at 2)" "0x02" "0x80" "0x00"
          "[0x80, 0x00, 0x30, 0x14]"]
  by (simp add: read_reg_eq writeBuf_eq Let_def run_simps no_fault_def fault_at_def)

lemma getTime_fault0:
  "\<not> locked b \<Longrightarrow> faulty b (transfers b) \<Longrightarrow>
   getTime b = Raises TransportFault (b\<lparr>cs := True, locked := True, transfers := Suc (transfers b)\<rparr>)"
  by (simp add: getTime_def bind_io_def read_reg_eq)

text \<open>
  C8 as stated fails when the first transfer of \<open>getTime\<close> raises: the fault reaches the
  caller with chip select asserted and the bus owned.
\<close>

theorem transaction_release_counterexample:
  "faulted (getTime (mock_bus (ctrl_regs 0x40) (fault_at 0)))
   \<and> final cs (getTime (mock_bus (ctrl_regs 0x40) (fault_at 0))) = Some True
   \<and> final locked (getTime (mock_bus (ctrl_regs 0x40) (fault_at 0))) = Some True"
  by (simp add: getTime_fault0 run_simps fault_at_def final_simps)

text \<open>
  What a fault leaves behind matters to the next call: on a bus that is still owned,
  \<open>__lock\<close> spins for ever, so no transaction returns or raises.
\<close>

lemma owned_bus_hangs:
  assumes "locked b"
  shows "read loc b = Hangs" and "read_all b = Hangs" and "writeOn b = Hangs"
    and "writeOff b = Hangs" and "writeBuf buf b = Hangs"
  using assms by (simp_all add: read_eq read_all_eq writeOn_eq writeOff_eq writeBuf_eq)

subsection \<open>Trickle charger, control bits and alarms\<close>

lemma and_mask_range: "0 \<le> uint (x :: u8) AND m \<and> uint x AND m < 256"
proof -
  have "uint x AND m \<le> uint x" by (rule AND_upper1) simp
  moreover have "uint x < 256" using uint_lt2p [of x] by simp
  ultimately show ?thesis by simp
qed

lemma or_range: "0 \<le> v \<Longrightarrow> v < 256 \<Longrightarrow> 0 \<le> k \<Longrightarrow> k < 256 \<Longrightarrow> 0 \<le> v OR k \<and> v OR k < (256::int)"
  using OR_upper [of v 8 k] by simp

lemma charger_buf_and_or:
  assumes "0 \<le> k" "k < 256"
  shows "bytearray [0x91, (uint (x :: u8) AND m) OR k] = Inr [0x91, (x AND word_of_int m) OR word_of_int k]"
  using and_mask_range [of x m] or_range [of "uint x AND m" k] assms
  by (simp add: bytearray_def of_int_or_eq of_int_and_eq)

lemma charger_buf_or:
  "bytearray [0x91, (uint (x :: u8) OR 0x01) OR 0x02] = Inr [0x91, (x OR 0x01) OR 0x02]"
proof -
  have a: "0 \<le> uint x OR 1 \<and> uint x OR 1 < 256"
    using or_range [of "uint x" 1] uint_lt2p [of x] by simp
  then have "0 \<le> (uint x OR 1) OR 2 \<and> (uint x OR 1) OR 2 < 256"
    using or_range [of "uint x OR 1" 2] by simp
  then show ?thesis by (simp add: bytearray_def of_int_or_eq)
qed

lemma relock_and: "(((c :: u8) AND 0x04) OR 0x40) AND 0x04 = c AND 0x04"
  by (simp add: bit.conj_disj_distrib2)

lemma setChargerState_run:
  assumes "\<not> locked b" and "\<forall>n. \<not> faulty b n"
    and "dv = (if d = 0 then (regs b 0x11 AND - 0x09) OR 0x04
               else (regs b 0x11 AND - 0x05) OR 0x08)"
    and "rv = (if r = 0 then (dv AND - 0x03) OR 0x01
               else if r = 1 then (dv AND - 0x02) OR 0x02
               else (dv OR 0x01) OR 0x02)"
  shows "\<exists>b'. setChargerState d r b = Returns () b'
           \<and> written b' = written b @
                [[0x8f, ctrl_reg b AND 0x04], [0x91, dv], [0x8f, (ctrl_reg b AND 0x04) OR 0x40],
                 [0x8f, ctrl_reg b AND 0x04], [0x91, rv], [0x8f, (ctrl_reg b AND 0x04) OR 0x40]]
           \<and> regs b' 0x11 = rv"
  using assms
  by (cases "d = 0"; cases "r = 0"; cases "r = 1")
     (simp_all add: setChargerState_def bind_io_def read_ok returns_def
        write_reg_Inr [OF charger_buf_and_or] write_reg_Inr [OF charger_buf_or]
        writeBuf_ok ctrl_reg_def relock_and)

text \<open>
  C7 (as amended). \<open>setChargerState\<close> rejects no configuration. Its arguments have no
  value that is kept apart as a selection to refuse: the diode argument \<open>d\<close> is only
  tested for being zero and the resistor argument \<open>r\<close> is only compared with 0 and 1,
  and every branch composes a byte and writes it. For every \<open>d\<close> and \<open>r\<close>, on a free bus
  without faults, the call raises nothing and returns after two write operations to the
  charger register (write address \<open>0x91\<close>): first the diode byte, \<open>(reg & -0x09) | 0x04\<close>
  when \<open>d\<close> is zero and \<open>(reg & -0x05) | 0x08\<close> otherwise, then the resistor byte,
  \<open>(reg & -0x03) | 0x01\<close> for \<open>r = 0\<close>, \<open>(reg & -0x02) | 0x02\<close> for \<open>r = 1\<close> and
  \<open>reg | 0x01 | 0x02\<close> otherwise, each between an unlock and a lock write of the control
  byte; the charger register ends as the resistor byte.
\<close>

theorem setChargerState_no_validation:
  assumes "\<not> locked b" and "\<forall>n. \<not> faulty b n"
    and "dv = (if d = 0 then (charger_reg b AND - 0x09) OR 0x04
               else (charger_reg b AND - 0x05) OR 0x08)"
    and "rv = (if r = 0 then (dv AND - 0x03) OR 0x01
               else if r = 1 then (dv AND - 0x02) OR 0x02
               else (dv OR 0x01) OR 0x02)"
  shows "\<exists>b'. setChargerState d r b = Returns () b'
           \<and> written b' = written b @
                [[0x8f, ctrl_reg b AND 0x04], [0x91, dv], [0x8f, (ctrl_reg b AND 0x04) OR 0x40],
                 [0x8f, ctrl_reg b AND 0x04], [0x91, rv], [0x8f, (ctrl_reg b AND 0x04) OR 0x40]]
           \<and> charger_reg b' = rv"
proof -
  have dv: "dv = (if d = 0 then (regs b 0x11 AND - 0x09) OR 0x04
                  else (regs b 0x11 AND - 0x05) OR 0x08)"
    using assms(3) by (simp add: charger_reg_def)
  from setChargerState_run [OF assms(1,2) dv assms(4)] show ?thesis
    by (simp add: charger_reg_def)
qed

theorem setChargerState_no_validation_witness:
  "(\<exists>b'. setChargerState 0 1 (mock_bus (ctrl_regs 0x40) no_fault) = Returns () b'
      \<and> written b' = [[0x8f, 0x00], [0x91, 0x04], [0x8f, 0x40],
                      [0x8f, 0x00], [0x91, 0x06], [0x8f, 0x40]]
      \<and> charger_reg b' = 0x06)
   \<and> (\<exists>b'. setChargerState 1 0 (mock_bus (ctrl_regs 0x40) no_fault) = Returns () b'
      \<and> written b' = [[0x8f, 0x00], [0x91, 0x08], [0x8f, 0x40],
                      [0x8f, 0x00], [0x91, 0x09], [0x8f, 0x40]]
      \<and> charger_reg b' = 0x09)"
  using setChargerState_no_validation [of "mock_bus (ctrl_regs 0x40) no_fault" "0x04" 0 "0x06" 1]
        setChargerState_no_validation [of "mock_bus (ctrl_regs 0x40) no_fault" "0x08" 1 "0x09" 0]
  by (simp add: mock_bus_def ctrl_regs_def no_fault_def ctrl_reg_def charger_reg_def)

lemma setChargerState_mock:
  assumes "dv = (if d = 0 then 0x04 else 0x08)"
    and "rv = (if r = 0 then (dv AND - 0x03) OR 0x01
               else if r = 1 then (dv AND - 0x02) OR 0x02
               else (dv OR 0x01) OR 0x02)"
  shows "returned (setChargerState d r (mock_bus (ctrl_regs 0x40) no_fault))
         \<and> final written (setChargerState d r (mock_bus (ctrl_regs 0x40) no_fault))
             = Some [[0x8f, 0x00], [0x91, dv], [0x8f, 0x40], [0x8f, 0x00], [0x91, rv], [0x8f, 0x40]]
         \<and> final charger_reg (setChargerState d r (mock_bus (ctrl_regs 0x40) no_fault)) = Some rv"
proof -
  let ?b = "mock_bus (ctrl_regs 0x40) no_fault"
  have free: "\<not> locked ?b" "\<forall>n. \<not> faulty ?b n"
    by (simp_all add: mock_bus_def no_fault_def)
  have dv: "dv = (if d = 0 then (regs ?b 0x11 AND - 0x09) OR 0x04
                  else (regs ?b 0x11 AND - 0x05) OR 0x08)"
    using assms(1) by (simp add: mock_bus_def ctrl_regs_def)
  from setChargerState_run [OF free dv assms(2)]
  obtain b' where "setChargerState d r ?b = Returns () b'"
    and "written b' = written ?b @
           [[0x8f, ctrl_reg ?b AND 0x04], [0x91, dv], [0x8f, (ctrl_reg ?b AND 0x04) OR 0x40],
            [0x8f, ctrl_reg ?b AND 0x04], [0x91, rv], [0x8f, (ctrl_reg ?b AND 0x04) OR 0x40]]"
    and "regs b' 0x11 = rv"
    by blast
  then show ?thesis
    by (simp add: final_simps charger_reg_def mock_bus_def ctrl_regs_def ctrl_reg_def)
qed

text \<open>
  C7 as stated fails: no call is rejected and every call writes. Whatever argument is
  taken to stand for a selection "none", the call returns after six frames and leaves
  the charger register changed: from a charger register of 0, the calls with
  \<open>(d, r)\<close> = (0,0), (0,1), (0,2), (1,0), (1,1), (1,2), one for each branch of the
  method, end with the register at 5, 6, 7, 9, 10, 11; for \<open>(0, 1)\<close> the frames are
  listed.
\<close>

theorem setChargerState_no_validation_counterexample:
  "returned (setChargerState 0 1 (mock_bus (ctrl_regs 0x40) no_fault))
   \<and> final written (setChargerState 0 1 (mock_bus (ctrl_regs 0x40) no_fault))
       = Some [[0x8f, 0x00], [0x91, 0x04], [0x8f, 0x40], [0x8f, 0x00], [0x91, 0x06], [0x8f, 0x40]]
   \<and> final charger_reg (setChargerState 0 1 (mock_bus (ctrl_regs 0x40) no_fault)) = Some 0x06
   \<and> returned (setChargerState 0 0 (mock_bus (ctrl_regs 0x40) no_fault))
   \<and> final charger_reg (setChargerState 0 0 (mock_bus (ctrl_regs 0x40) no_fault)) = Some 0x05
   \<and> returned (setChargerState 0 2 (mock_bus (ctrl_regs 0x40) no_fault))
   \<and> final charger_reg (setChargerState 0 2 (mock_bus (ctrl_regs 0x40) no_fault)) = Some 0x07
   \<and> returned (setChargerState 1 0 (mock_bus (ctrl_regs 0x40) no_fault))
   \<and> final charger_reg (setChargerState 1 0 (mock_bus (ctrl_regs 0x40) no_fault)) = Some 0x09
   \<and> returned (setChargerState 1 1 (mock_bus (ctrl_regs 0x40) no_fault))
   \<and> final charger_reg (setChargerState 1 1 (mock_bus (ctrl_regs 0x40) no_fault)) = Some 0x0A
   \<and> returned (setChargerState 1 2 (mock_bus (ctrl_regs 0x40) no_fault))
   \<and> final charger_reg (setChargerState 1 2 (mock_bus (ctrl_regs 0x40) no_fault)) = Some 0x0B"
  using setChargerState_mock [of "0x04" 0 "0x06" 1] setChargerState_mock [of "0x04" 0 "0x05" 0]
    setChargerState_mock [of "0x04" 0 "0x07" 2] setChargerState_mock [of "0x08" 1 "0x09" 0]
    setChargerState_mock [of "0x08" 1 "0x0A" 1] setChargerState_mock [of "0x08" 1 "0x0B" 2]
  by simp

lemma setTime_control_after:
  assumes "\<not> locked b" and "\<forall>n. \<not> faulty b n"
  shows "final ctrl_reg (setTime 14 30 0 0 0 b) = Some ((ctrl_reg b AND 0x04) OR 0x40)"
  using assms
  by (simp add: setTime_def setTime_buf from_sum_def returns_def bind_io_def writeBuf_ok
      ctrl_reg_def final_simps)

text \<open>
  C3, at the failing input. With the control register at \<open>0x03\<close> (write protect clear,
  both alarm-enable bits set), \<open>setTime(14,30,0)\<close> returns; its unlock step writes
  \<open>prior & 0x04 = 0x00\<close>, not the prior value with only the write-protect bit cleared,
  and after the lock step the control register is \<open>0x40\<close>: the alarm-enable bits 0 and
  1 are lost across the unlock/lock bracketing.
\<close>

theorem unlock_clears_alarm_enables:
  "returned (setTime 14 30 0 0 0 (mock_bus (ctrl_regs 0x03) no_fault))
   \<and> final written (setTime 14 30 0 0 0 (mock_bus (ctrl_regs 0x03) no_fault))
       = Some [[0x8f, 0x00], [0x80, 0x00, 0x30, 0x14], [0x8f, 0x40]]
   \<and> final ctrl_reg (setTime 14 30 0 0 0 (mock_bus (ctrl_regs 0x03) no_fault)) = Some 0x40"
  by (simp add: setTime_def setTime_buf from_sum_def returns_def bind_io_def writeBuf_ok
      mock_bus_def ctrl_regs_def no_fault_def ctrl_reg_def final_simps)

text \<open>
  What \<open>getAlarmTime\<close> does get right: with the match flag set, clearing bit 7 gives back
  the field byte and bit 7 is reported as 1.
\<close>

lemma match_bit_isolated:
  assumes "0 \<le> v" and "v < 128"
  shows "(v OR 0x80 * 1) AND - 0x81 = v \<and> (drop_bit 7 (v OR 0x80 * 1)) AND 1 = (1::int)"
proof -
  have v: "take_bit 7 v = v" using assms by (simp add: take_bit_int_eq_self)
  have nb: "\<not> bit v n" if "7 \<le> n" for n
  proof -
    have "bit (take_bit 7 v) n = False" using that by (simp add: bit_take_bit_iff)
    then show ?thesis by (simp add: v)
  qed
  have b128: "bit (128::int) n \<longleftrightarrow> n = 7" for n
    using bit_exp_iff [where ?'a = int, of 7 n] by simp
  have b129: "bit (- 129 :: int) n \<longleftrightarrow> n \<noteq> 7" for n
  proof -
    have e: "(- 129 :: int) = NOT 128" by (simp add: not_int_def)
    show ?thesis unfolding e bit_not_int_iff b128 by simp
  qed
  have 1: "(v OR 128) AND - 129 = v"
    by (rule bit_eqI) (auto simp: bit_and_iff bit_or_iff b128 b129 nb)
  have "drop_bit 7 (v OR 128) = 1"
    by (rule bit_eqI) (auto simp: bit_drop_bit_eq bit_or_iff b128 nb bit_1_iff)
  then show ?thesis using 1 by simp
qed

lemma setAlarmTime_example:
  "setAlarmTime 0 12 30 45 3 1 1 1 1 0 0 b = writeBuf [0x87, 0xC5, 0xB0, 0x92, 0x83] b"
  by (simp add: setAlarmTime_def Let_def bytearray_def dectobcd_def int_div_def
      setAlarmTime_hour_def from_sum_def returns_def bind_io_def)

text \<open>
  C6, at the failing input. After \<open>setAlarmTime(0, 12, 30, 45, 3, 1, 1, 1, 1)\<close> on a free
  bus without faults, \<open>getAlarmTime(0)\<close> returns the four match flags as 1, but for the
  fields it returns the \<open>bin\<close> strings of the raw BCD bytes without the match bits,
  \<open>'0b10010'\<close>, \<open>'0b110000'\<close>, \<open>'0b1000101'\<close>, \<open>'0b11'\<close>, not the values 12, 30, 45, 3:
  nothing is BCD-decoded.
\<close>

theorem getAlarmTime_returns_bin_strings:
  "result_of (then_io (setAlarmTime 0 12 30 45 3 1 1 1 1 0 0) (getAlarmTime 0)
                (mock_bus (ctrl_regs 0x40) no_fault))
   = Some (Inr (''0b10010'', ''0b110000'', ''0b1000101'', ''0b11'', 1, 1, 1, 1))"
  by (simp add: then_io_def setAlarmTime_example bind_io_def writeBuf_ok getAlarmTime_def
      read_ok returns_def mock_bus_def ctrl_regs_def no_fault_def bin_def bin_digits.simps)

end
